theory Spec2Isabelle
  imports Complex_Main "HOL-Library.Multiset"
begin

section \<open>Python primitives used by the recruitment pipeline\<close>

text \<open>
  Strings are lists of characters; every character stands for the code point of the same
  number (0 to 255). Python floats are modelled by exact rationals, and \<open>round(x, 2)\<close> by
  rounding the exact value to two decimals, ties to the even neighbour.
\<close>

definition isspace :: "char \<Rightarrow> bool" where
  "isspace c = (let n = (of_char c :: nat) in
     (9 \<le> n \<and> n \<le> 13) \<or> (28 \<le> n \<and> n \<le> 32) \<or> n = 133 \<or> n = 160)"

definition lower_char :: "char \<Rightarrow> char" where
  "lower_char c = (let n = (of_char c :: nat) in
     if (65 \<le> n \<and> n \<le> 90) \<or> (192 \<le> n \<and> n \<le> 214) \<or> (216 \<le> n \<and> n \<le> 222)
     then char_of (n + 32) else c)"

definition lower :: "string \<Rightarrow> string" where
  "lower s = map lower_char s"

fun startswith :: "string \<Rightarrow> string \<Rightarrow> bool" where
  "startswith s [] = True"
| "startswith [] (p # ps) = False"
| "startswith (c # cs) (p # ps) = (c = p \<and> startswith cs ps)"

text \<open>\<open>contains s sub\<close> is Python's \<open>sub in s\<close> on strings.\<close>

fun contains :: "string \<Rightarrow> string \<Rightarrow> bool" where
  "contains [] sub = (sub = [])"
| "contains (c # cs) sub = (startswith (c # cs) sub \<or> contains cs sub)"

text \<open>\<open>s.replace(' ', '')\<close>\<close>

definition remove_spaces :: "string \<Rightarrow> string" where
  "remove_spaces s = filter (\<lambda>c. c \<noteq> CHR '' '') s"

text \<open>\<open>s.split()\<close>: the maximal runs of non-whitespace characters, in order.\<close>

fun split_from :: "string \<Rightarrow> string \<Rightarrow> string list" where
  "split_from cur [] = (if cur = [] then [] else [cur])"
| "split_from cur (c # cs) =
     (if isspace c then (if cur = [] then split_from [] cs else cur # split_from [] cs)
      else split_from (cur @ [c]) cs)"

definition split :: "string \<Rightarrow> string list" where
  "split s = split_from [] s"

definition round_half_even :: "rat \<Rightarrow> int" where
  "round_half_even x =
     (let f = \<lfloor>x\<rfloor>; d = x - of_int f in
      if d < 1 / 2 then f
      else if 1 / 2 < d then f + 1
      else if even f then f else f + 1)"

text \<open>\<open>round(x, 2)\<close>\<close>

definition round2 :: "rat \<Rightarrow> rat" where
  "round2 x = of_int (round_half_even (x * 100)) / 100"

text \<open>The exceptions the pipeline can raise, and \<open>str(e)\<close> of each.\<close>

datatype py_error = KeyError string | ZeroDivisionError | ValueError

fun error_text :: "py_error \<Rightarrow> string" where
  "error_text (KeyError k) = [CHR 0x27] @ k @ [CHR 0x27]"
| "error_text ZeroDivisionError = ''division by zero''"
| "error_text ValueError = ''Invalid isoformat string: '' @ [CHR 0x27, CHR 0x27]"

section \<open>Data model\<close>

text \<open>
  The dictionaries of the source become records. A key read with \<open>.get(key)\<close> and no default
  is an option; a key read with a default holds the default when absent.
\<close>

record job_requirement =
  jr_position :: string
  jr_department :: string
  jr_required_skills :: "string list"
  jr_experience_level :: string
  jr_priority :: string

record candidate_data =
  candidate_id :: "string option"
  candidate_name :: "string option"
  position :: "string option"
  resume_text :: string
  cover_letter :: string
  experience_years :: rat

text \<open>
  The result of \<open>_analyze_skill_match\<close>. \<open>match_percentage\<close> holds the unrounded score that the
  source formats as text; the early return has no such key.
\<close>

record skill_match =
  sm_score :: rat
  matched_skills :: "string list"
  missing_skills :: "string list"
  match_percentage :: "rat option"

section \<open>CandidateScreener: skill match\<close>

definition skill_found :: "string \<Rightarrow> string \<Rightarrow> bool" where
  "skill_found resume_lower skill =
     (let skill_lower = lower skill in
      contains resume_lower skill_lower
      \<or> contains (remove_spaces resume_lower) (remove_spaces skill_lower)
      \<or> list_ex (\<lambda>word. contains resume_lower word) (split skill_lower))"

text \<open>The loop over \<open>required_skills\<close>, with the two lists it appends to.\<close>

fun skill_loop :: "string \<Rightarrow> string list \<Rightarrow> string list \<Rightarrow> string list
    \<Rightarrow> string list \<times> string list" where
  "skill_loop resume_lower [] matched missing = (matched, missing)"
| "skill_loop resume_lower (skill # rest) matched missing =
     (if skill_found resume_lower skill
      then skill_loop resume_lower rest (matched @ [skill]) missing
      else skill_loop resume_lower rest matched (missing @ [skill]))"

definition analyze_skill_match :: "string \<Rightarrow> string list \<Rightarrow> skill_match" where
  "analyze_skill_match resume required_skills =
     (if resume = [] \<or> required_skills = []
      then \<lparr>sm_score = 0, matched_skills = [], missing_skills = required_skills,
            match_percentage = None\<rparr>
      else
        let resume_lower = lower resume;
            (matched, missing) = skill_loop resume_lower required_skills [] [];
            score = (if required_skills \<noteq> []
                     then of_nat (length matched) / of_nat (length required_skills) * 100
                     else 0)
        in \<lparr>sm_score = round2 score, matched_skills = matched, missing_skills = missing,
             match_percentage = Some score\<rparr>)"


section \<open>CandidateScreener: experience, cultural fit, overall score, recommendation\<close>

record experience_match =
  em_score :: rat
  em_candidate_years :: rat
  em_required_years :: rat
  em_assessment :: string
  experience_gap :: rat

text \<open>The required years that \<open>_evaluate_experience\<close> parses from the level label.\<close>

definition required_years :: "string \<Rightarrow> rat" where
  "required_years required_level =
     (if contains required_level ''5+'' then 5
      else if contains required_level ''0-2'' then 1
      else 7 / 2)"

definition evaluate_experience :: "rat \<Rightarrow> string \<Rightarrow> experience_match" where
  "evaluate_experience candidate_years required_level =
     (let req = required_years required_level;
          score = (if candidate_years \<ge> req
                   then min 100 ((candidate_years / req) * 100)
                   else max 0 ((candidate_years / req) * 100));
          assessment = (if candidate_years \<ge> req * (3 / 2) then ''Overqualified''
                        else if candidate_years \<ge> req then ''Well Qualified''
                        else if candidate_years \<ge> req * (7 / 10) then ''Moderately Qualified''
                        else ''Underqualified'')
      in \<lparr>em_score = round2 score, em_candidate_years = candidate_years,
           em_required_years = req, em_assessment = assessment,
           experience_gap = candidate_years - req\<rparr>)"

record cultural_fit =
  cf_score :: rat
  category_scores :: "(string \<times> int) list"
  cf_assessment :: string
  strengths :: "string list"
  areas_for_growth :: "string list"

definition cultural_indicators :: "(string \<times> string list) list" where
  "cultural_indicators =
     [(''teamwork'', [''team'', ''collaboration'', ''cooperation'', ''partnership'']),
      (''leadership'', [''lead'', ''manage'', ''supervise'', ''mentor'', ''guide'']),
      (''innovation'', [''innovate'', ''creative'', ''problem-solving'', ''improve'']),
      (''communication'', [''communicate'', ''present'', ''write'', ''speak'', ''explain'']),
      (''adaptability'', [''adapt'', ''flexible'', ''change'', ''learn'', ''grow''])]"

definition category_score :: "string \<Rightarrow> string list \<Rightarrow> int" where
  "category_score combined_text keywords =
     min 100 (int (length (filter (\<lambda>keyword. contains combined_text keyword) keywords)) * 20)"

definition assess_cultural_fit :: "string \<Rightarrow> string \<Rightarrow> string \<Rightarrow> cultural_fit" where
  "assess_cultural_fit cover resume department =
     (let combined_text = lower (cover @ '' '' @ resume);
          scores = map (\<lambda>(category, keywords). (category, category_score combined_text keywords))
                     cultural_indicators;
          overall = of_int (sum_list (map snd scores)) / of_nat (length scores);
          assessment = (if overall \<ge> 80 then ''Excellent Cultural Fit''
                        else if overall \<ge> 60 then ''Good Cultural Fit''
                        else if overall \<ge> 40 then ''Moderate Cultural Fit''
                        else ''Limited Cultural Fit'')
      in \<lparr>cf_score = round2 overall, category_scores = scores, cf_assessment = assessment,
           strengths = map fst (filter (\<lambda>(k, v). v \<ge> 60) scores),
           areas_for_growth = map fst (filter (\<lambda>(k, v). v < 40) scores)\<rparr>)"

text \<open>
  The dictionary \<open>EVALUATION_CRITERIA\<close> of the configuration module, with its five keys.
\<close>

record evaluation_criteria =
  technical_skills :: rat
  communication :: rat
  experience :: rat
  cultural_fit_weight :: rat
  problem_solving :: rat

definition EVALUATION_CRITERIA :: evaluation_criteria where
  "EVALUATION_CRITERIA =
     \<lparr>technical_skills = 3 / 10, communication = 2 / 10, experience = 2 / 10,
      cultural_fit_weight = 15 / 100, problem_solving = 15 / 100\<rparr>"

definition calculate_overall_score ::
    "skill_match \<Rightarrow> experience_match \<Rightarrow> cultural_fit \<Rightarrow> rat" where
  "calculate_overall_score sm em cf =
     (let skill_score = sm_score sm;
          experience_score = em_score em;
          cultural_score = cf_score cf;
          overall_score = skill_score * technical_skills EVALUATION_CRITERIA
                        + experience_score * experience EVALUATION_CRITERIA
                        + cultural_score * cultural_fit_weight EVALUATION_CRITERIA
      in round2 overall_score)"

definition determine_recommendation :: "rat \<Rightarrow> string" where
  "determine_recommendation overall_score =
     (if overall_score \<ge> 85 then ''Strongly Recommend - Move to Technical Assessment''
      else if overall_score \<ge> 70 then ''Recommend - Move to HR Interview''
      else if overall_score \<ge> 55 then ''Consider - Additional Screening Required''
      else ''Not Recommended - Does Not Meet Requirements'')"

record screening_result =
  sr_candidate_id :: "string option"
  sr_candidate_name :: "string option"
  sr_position :: string
  overall_score :: rat
  skill_match_score :: rat
  experience_match_score :: rat
  cultural_fit_score :: rat
  recommendation :: string
  ai_feedback :: string
  skill_analysis :: skill_match
  experience_analysis :: experience_match
  cultural_fit_analysis :: cultural_fit

text \<open>
  What \<open>screen_candidate\<close> returns: the dictionary with \<open>screening_status\<close> "completed", or the
  one with \<open>screening_status\<close> "error", the candidate id and the error message.
\<close>

datatype screening = Completed screening_result | ScreeningError "string option" string

text \<open>
  The feedback text comes from the text-generation service or, when that is missing or
  fails, from the fallback template; it is an argument of the model (\<open>gen\<close>) and no score
  depends on it.
\<close>

type_synonym feedback_generator =
  "candidate_data \<Rightarrow> job_requirement \<Rightarrow> skill_match \<Rightarrow> experience_match \<Rightarrow> cultural_fit \<Rightarrow> string"

text \<open>
  \<open>_generate_ai_feedback\<close> builds its prompt before anything else, and the prompt reads
  \<open>skill_match['match_percentage']\<close>: the early return of \<open>_analyze_skill_match\<close> has no such
  key, so the read raises \<open>KeyError\<close>. The other keys the prompt reads are always there.
\<close>

definition generate_ai_feedback ::
    "feedback_generator \<Rightarrow> candidate_data \<Rightarrow> job_requirement \<Rightarrow> skill_match \<Rightarrow> experience_match
      \<Rightarrow> cultural_fit \<Rightarrow> py_error + string" where
  "generate_ai_feedback gen cd job sm em cf =
     (case match_percentage sm of
        None \<Rightarrow> Inl (KeyError ''match_percentage'')
      | Some p \<Rightarrow> Inr (gen cd job sm em cf))"

text \<open>
  \<open>screen_candidate\<close> catches every exception and returns the error dictionary with the
  candidate id and \<open>str(e)\<close>.
\<close>

definition screen_candidate ::
    "feedback_generator \<Rightarrow> candidate_data \<Rightarrow> job_requirement \<Rightarrow> screening" where
  "screen_candidate gen cd job =
     (let sm = analyze_skill_match (resume_text cd) (jr_required_skills job);
          em = evaluate_experience (experience_years cd) (jr_experience_level job);
          cf = assess_cultural_fit (cover_letter cd) (resume_text cd) (jr_department job);
          overall = calculate_overall_score sm em cf
      in case generate_ai_feedback gen cd job sm em cf of
           Inl e \<Rightarrow> ScreeningError (candidate_id cd) (error_text e)
         | Inr feedback \<Rightarrow>
             let rec = determine_recommendation overall
             in Completed
                  \<lparr>sr_candidate_id = candidate_id cd, sr_candidate_name = candidate_name cd,
                   sr_position = jr_position job, overall_score = overall,
                   skill_match_score = sm_score sm, experience_match_score = em_score em,
                   cultural_fit_score = cf_score cf, recommendation = rec,
                   ai_feedback = feedback, skill_analysis = sm, experience_analysis = em,
                   cultural_fit_analysis = cf\<rparr>)"

text \<open>A key of the screening dictionary, present when the screening completed.\<close>

definition map_screening :: "(screening_result \<Rightarrow> 'a) \<Rightarrow> screening \<Rightarrow> 'a option" where
  "map_screening f s = (case s of Completed res \<Rightarrow> Some (f res) | ScreeningError cid msg \<Rightarrow> None)"

section \<open>InterviewCoordinator\<close>

text \<open>
  A dictionary whose order matters is an association list; \<open>dict_set\<close> is \<open>d[k] = v\<close>: an
  existing key keeps its place, a new key goes to the end.
\<close>

fun dict_set :: "('k \<times> 'v) list \<Rightarrow> 'k \<Rightarrow> 'v \<Rightarrow> ('k \<times> 'v) list" where
  "dict_set [] k v = [(k, v)]"
| "dict_set ((k', v') # rest) k v =
     (if k' = k then (k, v) # rest else (k', v') # dict_set rest k v)"

definition determine_interview_stages :: "string \<Rightarrow> string \<Rightarrow> string \<Rightarrow> string list" where
  "determine_interview_stages pos department priority =
     (let technical_positions = [''Software Engineer'', ''DevOps Engineer'', ''Data Analyst'',
                                 ''QA Engineer'', ''Cloud Architect'', ''Network Engineer''];
          base_stages = [''Initial Screening''];
          base_stages = (if pos \<in> set technical_positions
                         then base_stages @ [''Technical Assessment''] else base_stages);
          base_stages = base_stages @ [''HR Interview''];
          base_stages = (if contains pos ''Senior'' \<or> contains pos ''Manager'' \<or> priority = ''High''
                         then base_stages @ [''Final Round''] else base_stages);
          base_stages = base_stages @ [''Reference Check'']
      in base_stages)"

text \<open>
  The schedule dictionary that \<open>create_interview_schedule\<close> returns. The dated calendar and
  the generated question sets (clock and text generation) are left out; no operation of the
  orchestrator reads them.
\<close>

record interview_schedule =
  is_candidate_id :: "string option"
  is_candidate_name :: "string option"
  is_position :: string
  is_department :: string
  interview_stages :: "string list"
  is_status :: string

definition create_interview_schedule :: "candidate_data \<Rightarrow> job_requirement \<Rightarrow> interview_schedule" where
  "create_interview_schedule cd job =
     (let pos = jr_position job;
          department = jr_department job;
          priority = jr_priority job;
          stages = determine_interview_stages pos department priority
      in \<lparr>is_candidate_id = candidate_id cd, is_candidate_name = candidate_name cd,
           is_position = pos, is_department = department, interview_stages = stages,
           is_status = ''scheduled''\<rparr>)"

text \<open>Time stamps count microseconds; \<open>datetime.now()\<close> is the argument \<open>now\<close>.\<close>

record status_update =
  su_candidate_id :: string
  su_stage :: string
  su_status :: string
  su_feedback :: string
  updated_at :: int

definition update_interview_status ::
    "string \<Rightarrow> string \<Rightarrow> string \<Rightarrow> string \<Rightarrow> int \<Rightarrow> status_update" where
  "update_interview_status cid stage st feedback now =
     \<lparr>su_candidate_id = cid, su_stage = stage, su_status = st, su_feedback = feedback,
      updated_at = now\<rparr>"

section \<open>RecruitmentOrchestrator\<close>

record final_evaluation =
  final_score :: rat
  interview_performance :: "int list"
  fe_recommendation :: string

text \<open>
  An entry of \<open>self.candidates\<close>: the submitted data and the keys the orchestrator adds. An
  absent \<open>interview_status\<close> reads as the empty dictionary everywhere, so it is the empty
  list here.
\<close>

record candidate =
  data :: candidate_data
  screening_result :: "screening_result option"
  interview_schedule :: "interview_schedule option"
  application_date :: "int option"
  status :: string
  interview_status :: "(string \<times> status_update) list"
  final_evaluation :: "final_evaluation option"
  selection_notes :: "string option"
  selection_date :: "int option"

record selection =
  sel_candidate_id :: string
  sel_candidate_name :: "string option"
  sel_position :: "string option"
  hiring_date :: int
  sel_notes :: string

record orchestrator =
  job_openings :: "job_requirement list"
  candidates :: "candidate list"
  final_selections :: "selection list"

fun find_job_requirements :: "job_requirement list \<Rightarrow> string \<Rightarrow> job_requirement option" where
  "find_job_requirements [] job_position = None"
| "find_job_requirements (opening # rest) job_position =
     (if lower (jr_position opening) = lower job_position then Some opening
      else find_job_requirements rest job_position)"

text \<open>
  \<open>_find_candidate\<close> returns a reference to the first entry with the id; the model returns
  the position of that entry in the list.
\<close>

fun find_candidate :: "candidate list \<Rightarrow> string \<Rightarrow> nat option" where
  "find_candidate [] cid = None"
| "find_candidate (c # rest) cid =
     (if candidate_id (data c) = Some cid then Some 0
      else map_option Suc (find_candidate rest cid))"

datatype process_result =
    ProcessError string
  | ProcessScreeningError "string option" string
  | ProcessSuccess string screening_result "interview_schedule option"

definition process_candidate_application ::
    "(candidate_data \<Rightarrow> job_requirement \<Rightarrow> screening) \<Rightarrow> orchestrator \<Rightarrow> candidate_data
      \<Rightarrow> string \<Rightarrow> int \<Rightarrow> process_result \<times> orchestrator" where
  "process_candidate_application screener st cd job_position now =
     (case find_job_requirements (job_openings st) job_position of
        None \<Rightarrow> (ProcessError (''Job position '' @ [CHR 0x27] @ job_position @ [CHR 0x27] @ '' not found''), st)
      | Some job \<Rightarrow>
          (case screener cd job of
             ScreeningError cid msg \<Rightarrow> (ProcessScreeningError cid msg, st)
           | Completed res \<Rightarrow>
               if startswith (recommendation res) ''Strongly Recommend''
                  \<or> startswith (recommendation res) ''Recommend''
               then
                 let sched = create_interview_schedule cd job in
                 (ProcessSuccess ''Candidate passed screening and interview scheduled'' res (Some sched),
                  st\<lparr>candidates := candidates st @
                      [\<lparr>data = cd, screening_result = Some res, interview_schedule = Some sched,
                        application_date = Some now, status = ''interview_scheduled'',
                        interview_status = [], final_evaluation = None,
                        selection_notes = None, selection_date = None\<rparr>]\<rparr>)
               else
                 (ProcessSuccess ''Candidate screened but did not meet requirements'' res None,
                  st\<lparr>candidates := candidates st @
                      [\<lparr>data = cd, screening_result = Some res, interview_schedule = None,
                        application_date = Some now, status = ''rejected'',
                        interview_status = [], final_evaluation = None,
                        selection_notes = None, selection_date = None\<rparr>]\<rparr>)))"

definition completed_stages :: "candidate \<Rightarrow> (string \<times> status_update) list" where
  "completed_stages c = filter (\<lambda>(stage, su). su_status su = ''completed'') (interview_status c)"

definition all_interviews_completed :: "candidate \<Rightarrow> bool" where
  "all_interviews_completed c =
     (case interview_schedule c of
        None \<Rightarrow> False
      | Some sched \<Rightarrow> length (completed_stages c) = length (interview_stages sched))"

definition get_final_recommendation :: "rat \<Rightarrow> string" where
  "get_final_recommendation fs =
     (if fs \<ge> 80 then ''Strongly Recommend Hiring''
      else if fs \<ge> 70 then ''Recommend Hiring''
      else if fs \<ge> 60 then ''Consider Hiring''
      else ''Do Not Recommend Hiring'')"

definition interview_score :: "status_update \<Rightarrow> int" where
  "interview_score su = min 100 (int (length (split (su_feedback su))) * 2)"

definition evaluate_final_candidate :: "candidate \<Rightarrow> final_evaluation" where
  "evaluate_final_candidate c =
     (let fs = (case screening_result c of None \<Rightarrow> 0 | Some res \<Rightarrow> overall_score res);
          interview_scores = map (\<lambda>(stage, su). interview_score su) (completed_stages c);
          fs = (if interview_scores \<noteq> []
                then let interview_average =
                           of_int (sum_list interview_scores) / of_nat (length interview_scores)
                     in fs * (6 / 10) + interview_average * (4 / 10)
                else fs)
      in \<lparr>final_score = round2 fs, interview_performance = interview_scores,
           fe_recommendation = get_final_recommendation fs\<rparr>)"

text \<open>\<open>stages.index(x)\<close>, with \<open>None\<close> for the \<open>ValueError\<close>.\<close>

fun index_of :: "string list \<Rightarrow> string \<Rightarrow> nat option" where
  "index_of [] x = None"
| "index_of (y # ys) x = (if y = x then Some 0 else map_option Suc (index_of ys x))"

definition get_next_steps :: "candidate \<Rightarrow> string \<Rightarrow> string list" where
  "get_next_steps c current_stage =
     (let stages = (case interview_schedule c of None \<Rightarrow> [] | Some sched \<Rightarrow> interview_stages sched)
      in case index_of stages current_stage of
           None \<Rightarrow> [''Review interview schedule'']
         | Some current_index \<Rightarrow>
             if current_index + 1 < length stages
             then [''Schedule '' @ stages ! (current_index + 1) @ '' interview'']
             else [''Complete final evaluation'', ''Make hiring decision''])"

datatype interview_result =
    InterviewError string
  | InterviewSuccess string string "string list"

text \<open>
  What \<open>conduct_interview\<close> does to the candidate it has found: it records the stage as
  completed and, when all interviews are completed, sets the status and the final evaluation.
\<close>

definition complete_stage :: "candidate \<Rightarrow> string \<Rightarrow> string \<Rightarrow> string \<Rightarrow> int \<Rightarrow> candidate" where
  "complete_stage c cid stage feedback now =
     (let status_update = update_interview_status cid stage ''completed'' feedback now;
          c = c\<lparr>interview_status := dict_set (interview_status c) stage status_update\<rparr>
      in if all_interviews_completed c
         then let c = c\<lparr>status := ''all_interviews_completed''\<rparr>
              in c\<lparr>final_evaluation := Some (evaluate_final_candidate c)\<rparr>
         else c)"

definition conduct_interview ::
    "orchestrator \<Rightarrow> string \<Rightarrow> string \<Rightarrow> string \<Rightarrow> int \<Rightarrow> interview_result \<times> orchestrator" where
  "conduct_interview st cid stage feedback now =
     (case find_candidate (candidates st) cid of
        None \<Rightarrow> (InterviewError (''Candidate with ID '' @ cid @ '' not found''), st)
      | Some i \<Rightarrow>
          let c = complete_stage (candidates st ! i) cid stage feedback now
          in (InterviewSuccess (''Interview stage '' @ [CHR 0x27] @ stage @ [CHR 0x27] @ '' completed'')
                (status c) (get_next_steps c stage),
              st\<lparr>candidates := (candidates st)[i := c]\<rparr>))"





datatype selection_result =
    SelectionError string
  | SelectionSuccess string string

definition make_final_selection ::
    "orchestrator \<Rightarrow> string \<Rightarrow> string \<Rightarrow> string \<Rightarrow> int \<Rightarrow> selection_result \<times> orchestrator" where
  "make_final_selection st cid decision notes now =
     (case find_candidate (candidates st) cid of
        None \<Rightarrow> (SelectionError (''Candidate with ID '' @ cid @ '' not found''), st)
      | Some i \<Rightarrow>
          let c = candidates st ! i;
              c = c\<lparr>status := decision, selection_notes := Some notes, selection_date := Some now\<rparr>;
              sels = (if decision = ''hired''
                      then final_selections st @
                           [\<lparr>sel_candidate_id = cid, sel_candidate_name = candidate_name (data c),
                             sel_position = position (data c), hiring_date = now,
                             sel_notes = notes\<rparr>]
                      else final_selections st)
          in (SelectionSuccess (''Final selection made: '' @ decision) (status c),
              st\<lparr>candidates := (candidates st)[i := c], final_selections := sels\<rparr>))"

section \<open>Summary statistics\<close>

text \<open>Python's \<open>a / b\<close>.\<close>

definition truediv :: "rat \<Rightarrow> rat \<Rightarrow> py_error + rat" where
  "truediv a b = (if b = 0 then Inl ZeroDivisionError else Inr (a / b))"

fun count_candidates_by_status :: "candidate list \<Rightarrow> (string \<times> nat) list \<Rightarrow> (string \<times> nat) list" where
  "count_candidates_by_status [] status_counts = status_counts"
| "count_candidates_by_status (c # rest) status_counts =
     count_candidates_by_status rest
       (dict_set status_counts (status c)
          ((case map_of status_counts (status c) of None \<Rightarrow> 0 | Some n \<Rightarrow> n) + 1))"

definition calculate_interview_completion_rate :: "orchestrator \<Rightarrow> py_error + rat" where
  "calculate_interview_completion_rate st =
     (if candidates st = [] then Inr 0
      else
        let completed_interviews =
              length (filter (\<lambda>c. status c \<in> set [''all_interviews_completed'', ''hired''])
                        (candidates st))
        in case truediv (of_nat completed_interviews) (of_nat (length (candidates st))) of
             Inl e \<Rightarrow> Inl e
           | Inr q \<Rightarrow> Inr (round2 (q * 100)))"

definition calculate_hiring_success_rate :: "orchestrator \<Rightarrow> py_error + rat" where
  "calculate_hiring_success_rate st =
     (if candidates st = [] then Inr 0
      else
        let hired_candidates = length (filter (\<lambda>c. status c = ''hired'') (candidates st))
        in case truediv (of_nat hired_candidates) (of_nat (length (candidates st))) of
             Inl e \<Rightarrow> Inl e
           | Inr q \<Rightarrow> Inr (round2 (q * 100)))"

text \<open>
  The text returned by \<open>_calculate_average_time_to_hire\<close>: "N/A", or the average number of
  days (formatted with one decimal by the source).
\<close>

datatype time_to_hire = NA | AverageDays rat

text \<open>
  The loop that adds the days of every hired candidate; a missing date makes
  \<open>datetime.fromisoformat\<close> raise \<open>ValueError\<close>. \<open>timedelta.days\<close> is the floor of the
  difference in days.
\<close>

fun total_days_loop :: "candidate list \<Rightarrow> int \<Rightarrow> py_error + int" where
  "total_days_loop [] total_days = Inr total_days"
| "total_days_loop (c # rest) total_days =
     (case application_date c of
        None \<Rightarrow> Inl ValueError
      | Some a \<Rightarrow>
          (case selection_date c of
             None \<Rightarrow> Inl ValueError
           | Some s \<Rightarrow> total_days_loop rest (total_days + (s - a) div 86400000000)))"

definition calculate_average_time_to_hire :: "orchestrator \<Rightarrow> py_error + time_to_hire" where
  "calculate_average_time_to_hire st =
     (let hired_candidates = filter (\<lambda>c. status c = ''hired'') (candidates st)
      in if hired_candidates = [] then Inr NA
         else case total_days_loop hired_candidates 0 of
                Inl e \<Rightarrow> Inl e
              | Inr total_days \<Rightarrow>
                  (case truediv (of_int total_days) (of_nat (length hired_candidates)) of
                     Inl e \<Rightarrow> Inl e
                   | Inr average_days \<Rightarrow> Inr (AverageDays average_days)))"

text \<open>
  The statistics of \<open>generate_recruitment_summary\<close>; an exception in any of them makes the
  whole summary an error. The candidate ranking, the insight texts and the report file are
  left out.
\<close>

record summary =
  total_job_openings :: nat
  total_candidates :: nat
  candidates_by_status :: "(string \<times> nat) list"
  interview_completion_rate :: rat
  hiring_success_rate :: rat
  average_time_to_hire :: time_to_hire

definition generate_recruitment_summary :: "orchestrator \<Rightarrow> py_error + summary" where
  "generate_recruitment_summary st =
     (case calculate_interview_completion_rate st of
        Inl e \<Rightarrow> Inl e
      | Inr icr \<Rightarrow>
          (case calculate_hiring_success_rate st of
             Inl e \<Rightarrow> Inl e
           | Inr hsr \<Rightarrow>
               (case calculate_average_time_to_hire st of
                  Inl e \<Rightarrow> Inl e
                | Inr tth \<Rightarrow>
                    Inr \<lparr>total_job_openings = length (job_openings st),
                         total_candidates = length (candidates st),
                         candidates_by_status = count_candidates_by_status (candidates st) [],
                         interview_completion_rate = icr, hiring_success_rate = hsr,
                         average_time_to_hire = tth\<rparr>)))"

section \<open>Example inputs\<close>

definition example_job :: job_requirement where
  "example_job = \<lparr>jr_position = ''Software Engineer'', jr_department = ''Engineering'',
     jr_required_skills = [''Python'', ''SQL'', ''Git''], jr_experience_level = ''2-5 years'',
     jr_priority = ''High''\<rparr>"

definition example_candidate :: candidate_data where
  "example_candidate = \<lparr>candidate_id = Some ''c1'', candidate_name = Some ''Ann'',
     position = Some ''Software Engineer'',
     resume_text = ''5 years building Python services with Git workflows'',
     cover_letter = ''I lead a team'', experience_years = 5\<rparr>"

definition blank_candidate :: candidate_data where
  "blank_candidate = \<lparr>candidate_id = Some ''c2'', candidate_name = Some ''Bo'',
     position = Some ''Software Engineer'', resume_text = [], cover_letter = [],
     experience_years = 2\<rparr>"

definition template_feedback :: feedback_generator where
  "template_feedback cd job sm em cf = ''Prepare concrete examples demonstrating impact''"

definition assistant_job :: job_requirement where
  "assistant_job = \<lparr>jr_position = ''Office Assistant'', jr_department = ''Operations'',
     jr_required_skills = [''Excel''], jr_experience_level = ''0-2 years'',
     jr_priority = ''Normal''\<rparr>"

definition assistant_candidate :: candidate_data where
  "assistant_candidate = \<lparr>candidate_id = Some ''c3'', candidate_name = Some ''Cy'',
     position = Some ''Office Assistant'', resume_text = ''Excel reports for a sales team'',
     cover_letter = [], experience_years = 1\<rparr>"

definition open_state :: orchestrator where
  "open_state = \<lparr>job_openings = [example_job, assistant_job], candidates = [],
     final_selections = []\<rparr>"

text \<open>
  The state after the example candidate and the assistant candidate applied; the screener
  rejected both.
\<close>

definition screened_state :: orchestrator where
  "screened_state = snd (process_candidate_application (screen_candidate template_feedback)
     (snd (process_candidate_application (screen_candidate template_feedback) open_state
        example_candidate ''software engineer'' 1000))
     assistant_candidate ''Office Assistant'' 2000)"

text \<open>
  A screener put in the place of \<open>self.screener\<close> that recommends the assistant candidate by
  a fixed text, with a low score.
\<close>

definition referral_result :: screening_result where
  "referral_result = \<lparr>sr_candidate_id = Some ''c3'', sr_candidate_name = Some ''Cy'',
     sr_position = ''Office Assistant'', overall_score = 10, skill_match_score = 100,
     experience_match_score = 100, cultural_fit_score = 4,
     recommendation = ''Recommend - referred by the hiring manager'', ai_feedback = [],
     skill_analysis = analyze_skill_match ''Excel reports for a sales team'' [''Excel''],
     experience_analysis = evaluate_experience 1 ''0-2 years'',
     cultural_fit_analysis = assess_cultural_fit [] ''Excel reports for a sales team''
       ''Operations''\<rparr>"

definition referral_screener :: "candidate_data \<Rightarrow> job_requirement \<Rightarrow> screening" where
  "referral_screener cd job = Completed referral_result"




section \<open>Rounding and the ranges of the scores\<close>

lemma round_half_even_mono: "x \<le> y \<Longrightarrow> round_half_even x \<le> round_half_even y"
proof -
  assume xy: "x \<le> y"
  have fl: "\<lfloor>x\<rfloor> \<le> \<lfloor>y\<rfloor>" using xy by (rule floor_mono)
  have lo: "\<And>z. \<lfloor>z\<rfloor> \<le> round_half_even z" by (simp add: round_half_even_def Let_def)
  have hi: "\<And>z. round_half_even z \<le> \<lfloor>z\<rfloor> + 1" by (simp add: round_half_even_def Let_def)
  show ?thesis
  proof (cases "\<lfloor>x\<rfloor> < \<lfloor>y\<rfloor>")
    case True
    have "round_half_even x \<le> \<lfloor>x\<rfloor> + 1" by (rule hi)
    also have "\<dots> \<le> \<lfloor>y\<rfloor>" using True by simp
    also have "\<dots> \<le> round_half_even y" by (rule lo)
    finally show ?thesis .
  next
    case False
    then have eq: "\<lfloor>x\<rfloor> = \<lfloor>y\<rfloor>" using fl by simp
    then have "x - of_int \<lfloor>x\<rfloor> \<le> y - of_int \<lfloor>y\<rfloor>" using xy by simp
    then show ?thesis using eq by (auto simp: round_half_even_def Let_def)
  qed
qed

lemma round_half_even_of_int: "round_half_even (of_int n) = n"
  by (simp add: round_half_even_def)

lemma round2_mono: "x \<le> y \<Longrightarrow> round2 x \<le> round2 y"
  unfolding round2_def
  by (intro divide_right_mono) (simp_all add: round_half_even_mono)

lemma round2_hundredths: "round2 (of_int k / 100) = of_int k / 100"
  by (simp add: round2_def round_half_even_of_int)

lemma round2_0: "round2 0 = 0"
  using round2_hundredths [of 0] by simp

lemma round2_100: "round2 100 = 100"
  using round2_hundredths [of 10000] by simp

lemma round2_65: "round2 65 = 65"
  using round2_hundredths [of 6500] by simp

lemma round2_range: "0 \<le> x \<Longrightarrow> x \<le> 100 \<Longrightarrow> 0 \<le> round2 x \<and> round2 x \<le> 100"
  using round2_mono [of 0 x] round2_mono [of x 100] by (simp add: round2_0 round2_100)

lemma skill_loop_filter:
  "skill_loop rl skills matched missing =
     (matched @ filter (skill_found rl) skills,
      missing @ filter (\<lambda>s. \<not> skill_found rl s) skills)"
  by (induction skills arbitrary: matched missing) auto

lemma analyze_skill_match_lists:
  "resume \<noteq> [] \<Longrightarrow> skills \<noteq> [] \<Longrightarrow>
   matched_skills (analyze_skill_match resume skills) = filter (skill_found (lower resume)) skills
   \<and> missing_skills (analyze_skill_match resume skills)
       = filter (\<lambda>s. \<not> skill_found (lower resume) s) skills
   \<and> sm_score (analyze_skill_match resume skills)
       = round2 (of_nat (length (filter (skill_found (lower resume)) skills))
                 / of_nat (length skills) * 100)"
  by (simp add: analyze_skill_match_def skill_loop_filter Let_def)

lemma analyze_skill_match_partition:
  "mset (matched_skills (analyze_skill_match resume skills))
     + mset (missing_skills (analyze_skill_match resume skills)) = mset skills
   \<and> set (matched_skills (analyze_skill_match resume skills))
       \<inter> set (missing_skills (analyze_skill_match resume skills)) = {}"
proof (cases "resume = [] \<or> skills = []")
  case True
  then show ?thesis by (auto simp: analyze_skill_match_def)
next
  case False
  then show ?thesis
    using analyze_skill_match_lists [of resume skills] by auto
qed

lemma analyze_skill_match_score:
  "skills \<noteq> [] \<Longrightarrow>
   sm_score (analyze_skill_match resume skills)
     = round2 (of_nat (length (matched_skills (analyze_skill_match resume skills)))
               / of_nat (length skills) * 100)"
proof (cases "resume = []")
  case True
  then show ?thesis by (simp add: analyze_skill_match_def round2_0)
next
  case False
  assume "skills \<noteq> []"
  then show ?thesis
    using False analyze_skill_match_lists [of resume skills] by simp
qed

lemma percent_range:
  assumes "k \<le> n" "0 < n"
  shows "0 \<le> (of_nat k :: rat) / of_nat n * 100 \<and> (of_nat k :: rat) / of_nat n * 100 \<le> 100"
proof -
  have "(of_nat k :: rat) \<le> of_nat n" using assms(1) by (simp only: of_nat_le_iff)
  then have "(of_nat k :: rat) / of_nat n \<le> 1" using assms(2) by (simp add: divide_le_eq)
  then have "(of_nat k :: rat) / of_nat n * 100 \<le> 1 * 100"
    by (intro mult_right_mono) simp_all
  then show ?thesis by simp
qed

lemma analyze_skill_match_range:
  "0 \<le> sm_score (analyze_skill_match resume skills)
   \<and> sm_score (analyze_skill_match resume skills) \<le> 100"
proof (cases "resume = [] \<or> skills = []")
  case True
  then show ?thesis by (auto simp: analyze_skill_match_def)
next
  case False
  let ?k = "length (filter (skill_found (lower resume)) skills)"
  let ?n = "length skills"
  have n: "0 < ?n" using False by simp
  have k: "?k \<le> ?n" by (rule length_filter_le)
  have "0 \<le> round2 ((of_nat ?k :: rat) / of_nat ?n * 100)
        \<and> round2 ((of_nat ?k :: rat) / of_nat ?n * 100) \<le> 100"
    using percent_range [OF k n] by (intro round2_range) simp_all
  then show ?thesis
    using False analyze_skill_match_lists [of resume skills] by simp
qed

lemma evaluate_experience_score:
  "em_score (evaluate_experience y lvl) =
     round2 (if y \<ge> required_years lvl then min 100 (y / required_years lvl * 100)
             else max 0 (y / required_years lvl * 100))"
  by (simp add: evaluate_experience_def Let_def)

lemma required_years_pos: "0 < required_years lvl"
  by (simp add: required_years_def)

lemma raw_experience_range:
  "0 \<le> (if y \<ge> required_years lvl then min 100 (y / required_years lvl * 100)
             else max 0 (y / required_years lvl * 100))
  \<and> (if y \<ge> required_years lvl then min 100 (y / required_years lvl * 100)
             else max 0 (y / required_years lvl * 100)) \<le> 100"
proof -
  have r: "0 < required_years lvl" by (rule required_years_pos)
  show ?thesis
  proof (cases "y \<ge> required_years lvl")
    case True
    then have "0 \<le> y" using r by simp
    then have "0 \<le> y / required_years lvl * 100" using r by simp
    then show ?thesis using True by simp
  next
    case False
    then have "y / required_years lvl < 1" using r by (simp add: divide_less_eq)
    then have "y / required_years lvl * 100 \<le> 1 * 100" by (intro mult_right_mono) simp_all
    then show ?thesis using False by simp
  qed
qed

lemma evaluate_experience_range:
  "0 \<le> em_score (evaluate_experience y lvl) \<and> em_score (evaluate_experience y lvl) \<le> 100"
  unfolding evaluate_experience_score
  using raw_experience_range [of lvl y] by (intro round2_range) simp_all

lemma evaluate_experience_mono:
  assumes "y1 \<le> y2"
  shows "em_score (evaluate_experience y1 lvl) \<le> em_score (evaluate_experience y2 lvl)"
proof -
  have r: "0 < required_years lvl" by (rule required_years_pos)
  have q: "y1 / required_years lvl * 100 \<le> y2 / required_years lvl * 100"
    using assms r by (simp add: divide_right_mono)
  show ?thesis
    unfolding evaluate_experience_score
  proof (rule round2_mono)
    show "(if y1 \<ge> required_years lvl then min 100 (y1 / required_years lvl * 100)
             else max 0 (y1 / required_years lvl * 100))
          \<le> (if y2 \<ge> required_years lvl then min 100 (y2 / required_years lvl * 100)
             else max 0 (y2 / required_years lvl * 100))"
    proof (cases "y2 \<ge> required_years lvl")
      case True
      then have "100 \<le> y2 / required_years lvl * 100" using r by (simp add: le_divide_eq)
      then have "min 100 (y2 / required_years lvl * 100) = 100" by simp
      then show ?thesis using True raw_experience_range [of lvl y1] by simp
    next
      case False
      then have "\<not> y1 \<ge> required_years lvl" using assms by simp
      then show ?thesis using False q by (simp add: max.coboundedI2)
    qed
  qed
qed

lemma evaluate_experience_exact:
  "em_score (evaluate_experience (required_years lvl) lvl) = 100"
  using required_years_pos [of lvl] by (simp add: evaluate_experience_score round2_100)

lemma category_score_range: "0 \<le> category_score t ks \<and> category_score t ks \<le> 100"
  by (simp add: category_score_def)

lemma category_scores_sum:
  "0 \<le> sum_list (map snd (map (\<lambda>(category, keywords). (category, category_score t keywords)) inds))
   \<and> sum_list (map snd (map (\<lambda>(category, keywords). (category, category_score t keywords)) inds))
       \<le> 100 * int (length inds)"
proof (induction inds)
  case Nil
  show ?case by simp
next
  case (Cons a inds)
  obtain c ks where a: "a = (c, ks)" by (cases a)
  show ?case using Cons category_score_range [of t ks] by (simp add: a)
qed

lemma assess_cultural_fit_range:
  "0 \<le> cf_score (assess_cultural_fit cover resume dept)
   \<and> cf_score (assess_cultural_fit cover resume dept) \<le> 100"
proof -
  define t where "t = lower (cover @ '' '' @ resume)"
  define total where "total = sum_list (map snd (map (\<lambda>(category, keywords). (category, category_score t keywords)) cultural_indicators))"
  have len: "length cultural_indicators = 5" by (simp add: cultural_indicators_def)
  have cf: "cf_score (assess_cultural_fit cover resume dept) = round2 (of_int total / 5)"
    by (simp add: assess_cultural_fit_def Let_def total_def t_def len)
  have "0 \<le> total \<and> total \<le> 500"
    using category_scores_sum [of t cultural_indicators] by (simp add: total_def len)
  then have "0 \<le> (of_int total :: rat) / 5 \<and> (of_int total :: rat) / 5 \<le> 100"
    by simp
  then show ?thesis unfolding cf by (intro round2_range) simp_all
qed

lemma overall_score_linear:
  "calculate_overall_score sm em cf =
     round2 (sm_score sm * technical_skills EVALUATION_CRITERIA
             + em_score em * experience EVALUATION_CRITERIA
             + cf_score cf * cultural_fit_weight EVALUATION_CRITERIA)"
  by (simp add: calculate_overall_score_def Let_def)

lemma weighted_sum_range:
  fixes a b c s e f :: rat
  assumes "0 \<le> a" "0 \<le> b" "0 \<le> c" "a + b + c \<le> w"
    and "0 \<le> s" "s \<le> 100" "0 \<le> e" "e \<le> 100" "0 \<le> f" "f \<le> 100"
  shows "0 \<le> s * a + e * b + f * c \<and> s * a + e * b + f * c \<le> 100 * w"
proof -
  have 1: "s * a \<le> 100 * a" using assms by (intro mult_right_mono) simp_all
  have 2: "e * b \<le> 100 * b" using assms by (intro mult_right_mono) simp_all
  have 3: "f * c \<le> 100 * c" using assms by (intro mult_right_mono) simp_all
  have "s * a + e * b + f * c \<le> 100 * (a + b + c)" using 1 2 3 by (simp add: algebra_simps)
  also have "\<dots> \<le> 100 * w" using assms(4) by simp
  finally have hi: "s * a + e * b + f * c \<le> 100 * w" .
  have "0 \<le> s * a" "0 \<le> e * b" "0 \<le> f * c" using assms by simp_all
  then have "0 \<le> s * a + e * b + f * c" by simp
  then show ?thesis using hi by simp
qed

lemma shipped_overall_le_65:
  assumes "0 \<le> sm_score sm" "sm_score sm \<le> 100" "0 \<le> em_score em" "em_score em \<le> 100"
    "0 \<le> cf_score cf" "cf_score cf \<le> 100"
  shows "0 \<le> calculate_overall_score sm em cf \<and> calculate_overall_score sm em cf \<le> 65"
proof -
  have "0 \<le> sm_score sm * (3/10) + em_score em * (2/10) + cf_score cf * (15/100)
        \<and> sm_score sm * (3/10) + em_score em * (2/10) + cf_score cf * (15/100) \<le> 100 * (65/100)"
    using assms by (intro weighted_sum_range) simp_all
  then have "round2 0 \<le> round2 (sm_score sm * (3/10) + em_score em * (2/10) + cf_score cf * (15/100))
     \<and> round2 (sm_score sm * (3/10) + em_score em * (2/10) + cf_score cf * (15/100)) \<le> round2 65"
    by (simp add: round2_mono)
  then show ?thesis
    by (simp add: overall_score_linear EVALUATION_CRITERIA_def round2_0 round2_65)
qed

lemma low_score_not_recommended:
  "s < 70 \<Longrightarrow> \<not> startswith (determine_recommendation s) ''Strongly Recommend''
     \<and> \<not> startswith (determine_recommendation s) ''Recommend''"
  by (simp add: determine_recommendation_def)

lemma match_percentage_None:
  "match_percentage (analyze_skill_match resume skills) = None \<longleftrightarrow> resume = [] \<or> skills = []"
  by (simp add: analyze_skill_match_def skill_loop_filter Let_def)

lemma screen_candidate_error:
  "resume_text cd = [] \<or> jr_required_skills job = [] \<Longrightarrow>
   screen_candidate gen cd job
     = ScreeningError (candidate_id cd) ([CHR 0x27] @ ''match_percentage'' @ [CHR 0x27])"
proof -
  assume e: "resume_text cd = [] \<or> jr_required_skills job = []"
  have "match_percentage (analyze_skill_match (resume_text cd) (jr_required_skills job)) = None"
    using e by (simp only: match_percentage_None)
  then show ?thesis
    by (simp add: screen_candidate_def generate_ai_feedback_def Let_def)
qed

lemma screen_candidate_completed:
  assumes "resume_text cd \<noteq> []" and "jr_required_skills job \<noteq> []"
  shows "\<exists>res. screen_candidate gen cd job = Completed res
     \<and> skill_analysis res = analyze_skill_match (resume_text cd) (jr_required_skills job)
     \<and> skill_match_score res
         = sm_score (analyze_skill_match (resume_text cd) (jr_required_skills job))
     \<and> 0 \<le> overall_score res \<and> overall_score res \<le> 65
     \<and> recommendation res = determine_recommendation (overall_score res)"
proof -
  let ?sm = "analyze_skill_match (resume_text cd) (jr_required_skills job)"
  let ?em = "evaluate_experience (experience_years cd) (jr_experience_level job)"
  let ?cf = "assess_cultural_fit (cover_letter cd) (resume_text cd) (jr_department job)"
  have "match_percentage ?sm \<noteq> None"
    using assms by (simp only: match_percentage_None) simp
  then obtain p where p: "match_percentage ?sm = Some p" by auto
  obtain res where res: "screen_candidate gen cd job = Completed res"
    and sa: "skill_analysis res = ?sm" and sc: "skill_match_score res = sm_score ?sm"
    and ov: "overall_score res = calculate_overall_score ?sm ?em ?cf"
    and rc: "recommendation res = determine_recommendation (overall_score res)"
    by (simp add: screen_candidate_def generate_ai_feedback_def Let_def p)
  have "0 \<le> calculate_overall_score ?sm ?em ?cf \<and> calculate_overall_score ?sm ?em ?cf \<le> 65"
    using analyze_skill_match_range [of "resume_text cd" "jr_required_skills job"]
      evaluate_experience_range [of "experience_years cd" "jr_experience_level job"]
      assess_cultural_fit_range [of "cover_letter cd" "resume_text cd" "jr_department job"]
    by (intro shipped_overall_le_65) simp_all
  then show ?thesis using res sa sc ov rc by simp
qed

lemma screen_candidate_Completed_iff:
  "(\<exists>res. screen_candidate gen cd job = Completed res)
     \<longleftrightarrow> resume_text cd \<noteq> [] \<and> jr_required_skills job \<noteq> []"
proof (cases "resume_text cd = [] \<or> jr_required_skills job = []")
  case True
  then show ?thesis using screen_candidate_error [OF True, of gen] by auto
next
  case False
  then show ?thesis using screen_candidate_completed [of cd job gen] by auto
qed

lemma round_half_even_error:
  "\<bar>of_int (round_half_even x) - x\<bar> \<le> 1 / 2"
proof -
  define f where "f = \<lfloor>x\<rfloor>"
  define d where "d = x - of_int f"
  have lo: "of_int f \<le> x" and hi: "x < of_int f + 1" unfolding f_def by linarith+
  have d: "0 \<le> d" "d < 1" using lo hi by (simp_all add: d_def)
  have r: "round_half_even x = (if d < 1 / 2 then f else if 1 / 2 < d then f + 1
              else if even f then f else f + 1)"
    by (simp add: round_half_even_def Let_def d_def f_def)
  have z: "of_int f - x = - d" and o: "of_int (f + 1) - x = 1 - d" by (simp_all add: d_def)
  have small: "\<bar>- d\<bar> \<le> 1 / 2" if "d \<le> 1 / 2" using d that by (simp add: abs_if)
  have large: "\<bar>1 - d\<bar> \<le> 1 / 2" if "1 / 2 \<le> d" using d that by (simp add: abs_if)
  consider (low) "d < 1 / 2" | (high) "1 / 2 < d" | (tie) "d = 1 / 2" by linarith
  then show ?thesis
  proof cases
    case low
    then have "round_half_even x = f" by (simp add: r)
    then have "of_int (round_half_even x) - x = - d" by (simp only: z)
    then show ?thesis using small low by simp
  next
    case high
    then have "round_half_even x = f + 1" by (simp add: r)
    then have "of_int (round_half_even x) - x = 1 - d" by (simp only: o)
    then show ?thesis using large high by simp
  next
    case tie
    then have "round_half_even x = f \<or> round_half_even x = f + 1" by (simp add: r)
    then show ?thesis
    proof
      assume "round_half_even x = f"
      then have "of_int (round_half_even x) - x = - d" by (simp only: z)
      then show ?thesis using small tie by simp
    next
      assume "round_half_even x = f + 1"
      then have "of_int (round_half_even x) - x = 1 - d" by (simp only: o)
      then show ?thesis using large tie by simp
    qed
  qed
qed

lemma round2_error: "\<bar>round2 x - x\<bar> \<le> 1 / 200"
proof -
  define e where "e = of_int (round_half_even (x * 100)) - x * 100"
  have e: "\<bar>e\<bar> \<le> 1 / 2" unfolding e_def by (rule round_half_even_error)
  have eq: "round2 x - x = e / 100" by (simp add: round2_def e_def diff_divide_distrib)
  have "\<bar>round2 x - x\<bar> = \<bar>e / 100\<bar>" by (simp only: eq)
  also have "\<dots> = \<bar>e\<bar> / 100" by simp
  also have "\<dots> \<le> (1 / 2) / 100" using e by (intro divide_right_mono) simp_all
  finally show ?thesis by simp
qed

section \<open>Candidate lookup, interview stages and final evaluation\<close>

lemma find_candidate_None:
  "find_candidate cs cid = None \<longleftrightarrow> (\<forall>c \<in> set cs. candidate_id (data c) \<noteq> Some cid)"
  by (induction cs) auto

lemma truediv_of_nat:
  "0 < n \<Longrightarrow> truediv a (of_nat n) = Inr (a / of_nat n)"
  by (simp add: truediv_def)

lemma find_candidate_Some:
  "find_candidate cs cid = Some i \<Longrightarrow> i < length cs \<and> candidate_id (data (cs ! i)) = Some cid"
proof (induction cs arbitrary: i)
  case Nil
  then show ?case by simp
next
  case (Cons c cs)
  show ?case
  proof (cases "candidate_id (data c) = Some cid")
    case True
    then show ?thesis using Cons.prems by simp
  next
    case False
    then obtain j where j: "find_candidate cs cid = Some j" and i: "i = Suc j"
      using Cons.prems by auto
    then show ?thesis using Cons.IH [OF j] by simp
  qed
qed



lemma complete_stage_status:
  "status (complete_stage c cid stage fb now) = status c
   \<or> (interview_schedule c \<noteq> None
       \<and> status (complete_stage c cid stage fb now) = ''all_interviews_completed'')"
  by (auto simp: complete_stage_def Let_def all_interviews_completed_def split: option.splits)

lemma conduct_interview_found:
  "find_candidate (candidates st) cid = Some i \<Longrightarrow>
   snd (conduct_interview st cid stage fb now)
     = st\<lparr>candidates := (candidates st)[i := complete_stage (candidates st ! i) cid stage fb now]\<rparr>"
  by (simp add: conduct_interview_def Let_def)

lemma conduct_interview_missing:
  "find_candidate (candidates st) cid = None \<Longrightarrow> snd (conduct_interview st cid stage fb now) = st"
  by (simp add: conduct_interview_def)

lemma make_final_selection_found:
  "find_candidate (candidates st) cid = Some i \<Longrightarrow>
   candidates (snd (make_final_selection st cid decision notes now))
     = (candidates st)[i := (candidates st ! i)\<lparr>status := decision, selection_notes := Some notes,
                                                selection_date := Some now\<rparr>]"
  by (simp add: make_final_selection_def Let_def)

lemma make_final_selection_missing:
  "find_candidate (candidates st) cid = None \<Longrightarrow>
   snd (make_final_selection st cid decision notes now) = st"
  by (simp add: make_final_selection_def)















section \<open>Verified claims\<close>

text \<open>
  For a non-empty resume and a non-empty list of required skills \<open>screen_candidate\<close>
  completes, and its skill analysis splits the required skills into matched and missing
  skills: the two lengths add up, the two lists together hold exactly the required skills,
  no skill is in both, and the score is the matched share times 100, rounded to two
  decimals. \<open>_analyze_skill_match\<close> itself splits the skills so for every resume.
\<close>

lemma screen_candidate_skill_partition:
  assumes "resume_text cd \<noteq> []" and "jr_required_skills job \<noteq> []"
  shows "\<exists>res. screen_candidate gen cd job = Completed res
    \<and> length (matched_skills (skill_analysis res)) + length (missing_skills (skill_analysis res))
        = length (jr_required_skills job)
    \<and> mset (matched_skills (skill_analysis res)) + mset (missing_skills (skill_analysis res))
        = mset (jr_required_skills job)
    \<and> set (matched_skills (skill_analysis res)) \<inter> set (missing_skills (skill_analysis res)) = {}
    \<and> skill_match_score res
        = round2 (of_nat (length (matched_skills (skill_analysis res)))
                  / of_nat (length (jr_required_skills job)) * 100)
    \<and> sm_score (skill_analysis res) = skill_match_score res"
proof -
  let ?sm = "analyze_skill_match (resume_text cd) (jr_required_skills job)"
  obtain res where res: "screen_candidate gen cd job = Completed res"
    and sa: "skill_analysis res = ?sm" and sc: "skill_match_score res = sm_score ?sm"
    using screen_candidate_completed [OF assms, of gen] by blast
  have part: "mset (matched_skills ?sm) + mset (missing_skills ?sm) = mset (jr_required_skills job)"
    and disj: "set (matched_skills ?sm) \<inter> set (missing_skills ?sm) = {}"
    using analyze_skill_match_partition [of "resume_text cd" "jr_required_skills job"] by simp_all
  have "size (mset (matched_skills ?sm) + mset (missing_skills ?sm)) = size (mset (jr_required_skills job))"
    by (simp only: part)
  then have len: "length (matched_skills ?sm) + length (missing_skills ?sm) = length (jr_required_skills job)"
    by simp
  have score: "sm_score ?sm = round2 (of_nat (length (matched_skills ?sm))
                  / of_nat (length (jr_required_skills job)) * 100)"
    using assms(2) by (rule analyze_skill_match_score)
  show ?thesis
    using res sa sc part disj len score by simp
qed

text \<open>
  Claim C1 at an empty resume. \<open>_analyze_skill_match\<close> returns score 0 with every required
  skill missing, as the claim says, but its early return leaves out the key
  \<open>match_percentage\<close>; the feedback prompt reads that key, and \<open>screen_candidate\<close> returns
  the error dictionary, with no skill analysis and no score.
\<close>

theorem C1_empty_resume_screening_error:
  "resume_text blank_candidate = []
   \<and> jr_required_skills example_job = [''Python'', ''SQL'', ''Git'']
   \<and> analyze_skill_match (resume_text blank_candidate) (jr_required_skills example_job)
       = \<lparr>sm_score = 0, matched_skills = [], missing_skills = [''Python'', ''SQL'', ''Git''],
          match_percentage = None\<rparr>
   \<and> screen_candidate template_feedback blank_candidate example_job
       = ScreeningError (Some ''c2'') ([CHR 0x27] @ ''match_percentage'' @ [CHR 0x27])"
  by code_simp

text \<open>
  Claim C2. For sub-scores in [0,100] the overall score is the weighted sum of the three
  sub-scores under the weights of the configuration, rounded to two decimals (so within half
  a hundredth of the sum); the weights are non-negative, they are not required to sum to 1
  (they sum to 0.65), and the score lies in [0,100].
\<close>

theorem C2_overall_score_in_range:
  assumes "0 \<le> sm_score sm" "sm_score sm \<le> 100"
    and "0 \<le> em_score em" "em_score em \<le> 100"
    and "0 \<le> cf_score cf" "cf_score cf \<le> 100"
  shows "calculate_overall_score sm em cf
           = round2 (sm_score sm * technical_skills EVALUATION_CRITERIA
                     + em_score em * experience EVALUATION_CRITERIA
                     + cf_score cf * cultural_fit_weight EVALUATION_CRITERIA)
         \<and> \<bar>calculate_overall_score sm em cf
              - (sm_score sm * technical_skills EVALUATION_CRITERIA
                 + em_score em * experience EVALUATION_CRITERIA
                 + cf_score cf * cultural_fit_weight EVALUATION_CRITERIA)\<bar> \<le> 1 / 200
         \<and> 0 \<le> technical_skills EVALUATION_CRITERIA \<and> 0 \<le> experience EVALUATION_CRITERIA
         \<and> 0 \<le> cultural_fit_weight EVALUATION_CRITERIA
         \<and> 0 \<le> calculate_overall_score sm em cf \<and> calculate_overall_score sm em cf \<le> 100"
proof -
  have w: "0 \<le> technical_skills EVALUATION_CRITERIA \<and> 0 \<le> experience EVALUATION_CRITERIA
         \<and> 0 \<le> cultural_fit_weight EVALUATION_CRITERIA"
    by (simp add: EVALUATION_CRITERIA_def)
  have r: "0 \<le> calculate_overall_score sm em cf \<and> calculate_overall_score sm em cf \<le> 65"
    using assms by (intro shipped_overall_le_65) simp_all
  show ?thesis
    using w r
      round2_error [of "sm_score sm * technical_skills EVALUATION_CRITERIA
                 + em_score em * experience EVALUATION_CRITERIA
                 + cf_score cf * cultural_fit_weight EVALUATION_CRITERIA"]
    by (simp add: overall_score_linear)
qed

theorem C2_overall_score_in_range_witness:
  "sm_score (analyze_skill_match ''python'' [''Python'']) = 100
   \<and> em_score (evaluate_experience 5 ''5+ years'') = 100
   \<and> cf_score (assess_cultural_fit [] [] []) = 0
   \<and> calculate_overall_score (analyze_skill_match ''python'' [''Python''])
        (evaluate_experience 5 ''5+ years'') (assess_cultural_fit [] [] []) = 50
   \<and> 0 \<le> calculate_overall_score (analyze_skill_match ''python'' [''Python''])
        (evaluate_experience 5 ''5+ years'') (assess_cultural_fit [] [] [])
   \<and> calculate_overall_score (analyze_skill_match ''python'' [''Python''])
        (evaluate_experience 5 ''5+ years'') (assess_cultural_fit [] [] []) \<le> 100"
proof -
  have s: "sm_score (analyze_skill_match ''python'' [''Python'']) = 100" by code_simp
  have e: "em_score (evaluate_experience 5 ''5+ years'') = 100" by code_simp
  have c: "cf_score (assess_cultural_fit [] [] []) = 0" by code_simp
  have v: "calculate_overall_score (analyze_skill_match ''python'' [''Python''])
        (evaluate_experience 5 ''5+ years'') (assess_cultural_fit [] [] []) = 50" by code_simp
  have "0 \<le> calculate_overall_score (analyze_skill_match ''python'' [''Python''])
        (evaluate_experience 5 ''5+ years'') (assess_cultural_fit [] [] [])
     \<and> calculate_overall_score (analyze_skill_match ''python'' [''Python''])
        (evaluate_experience 5 ''5+ years'') (assess_cultural_fit [] [] []) \<le> 100"
    using C2_overall_score_in_range [of "analyze_skill_match ''python'' [''Python'']"
        "evaluate_experience 5 ''5+ years''" "assess_cultural_fit [] [] []"]
    by (simp add: s e c)
  then show ?thesis using s e c v by simp
qed

text \<open>
  Claim C3. With the shipped weights (0.3, 0.2, 0.15) every completed screening has an
  overall score of at most 65, so its recommendation never starts with "Strongly Recommend"
  or "Recommend"; the screening completes whenever the resume and the list of required
  skills are not empty. \<open>process_candidate_application\<close> never creates an interview
  schedule: every candidate whose screening completed is stored with status "rejected" and
  without a schedule, and otherwise nothing is stored.
\<close>

theorem C3_shipped_weights_reject_everyone:
  "(screen_candidate gen cd job = Completed res \<longrightarrow>
      overall_score res \<le> 65
      \<and> \<not> startswith (recommendation res) ''Strongly Recommend''
      \<and> \<not> startswith (recommendation res) ''Recommend'')
   \<and> (resume_text cd \<noteq> [] \<and> jr_required_skills job \<noteq> [] \<longrightarrow>
        (\<exists>r. screen_candidate gen cd job = Completed r))
   \<and> (find_job_requirements (job_openings st) job_position = Some job
        \<and> screen_candidate gen cd job = Completed res \<longrightarrow>
        process_candidate_application (screen_candidate gen) st cd job_position now
          = (ProcessSuccess ''Candidate screened but did not meet requirements'' res None,
             st\<lparr>candidates := candidates st @
                [\<lparr>data = cd, screening_result = Some res, interview_schedule = None,
                  application_date = Some now, status = ''rejected'', interview_status = [],
                  final_evaluation = None, selection_notes = None,
                  selection_date = None\<rparr>]\<rparr>))
   \<and> (snd (process_candidate_application (screen_candidate gen) st cd job_position now) = st
        \<or> (\<exists>c. snd (process_candidate_application (screen_candidate gen) st cd job_position now)
                  = st\<lparr>candidates := candidates st @ [c]\<rparr>
               \<and> status c = ''rejected'' \<and> interview_schedule c = None))"
proof -
  have low: "\<And>j r. screen_candidate gen cd j = Completed r \<Longrightarrow>
      overall_score r \<le> 65
      \<and> \<not> startswith (recommendation r) ''Strongly Recommend''
      \<and> \<not> startswith (recommendation r) ''Recommend''"
  proof -
    fix j r
    assume c: "screen_candidate gen cd j = Completed r"
    then have "resume_text cd \<noteq> [] \<and> jr_required_skills j \<noteq> []"
      using screen_candidate_Completed_iff [of gen cd j] by blast
    then obtain r' where r': "screen_candidate gen cd j = Completed r'"
      and le: "overall_score r' \<le> 65"
      and rc: "recommendation r' = determine_recommendation (overall_score r')"
      using screen_candidate_completed [of cd j gen] by blast
    have eq: "r' = r" using c r' by simp
    have "overall_score r < 70" using le eq by simp
    then have "\<not> startswith (determine_recommendation (overall_score r)) ''Strongly Recommend''
      \<and> \<not> startswith (determine_recommendation (overall_score r)) ''Recommend''"
      by (rule low_score_not_recommended)
    then show "overall_score r \<le> 65
      \<and> \<not> startswith (recommendation r) ''Strongly Recommend''
      \<and> \<not> startswith (recommendation r) ''Recommend''"
      using le rc eq by simp
  qed
  have a: "screen_candidate gen cd job = Completed res \<longrightarrow>
      overall_score res \<le> 65
      \<and> \<not> startswith (recommendation res) ''Strongly Recommend''
      \<and> \<not> startswith (recommendation res) ''Recommend''"
    using low by blast
  have b: "resume_text cd \<noteq> [] \<and> jr_required_skills job \<noteq> [] \<longrightarrow>
        (\<exists>r. screen_candidate gen cd job = Completed r)"
    using screen_candidate_Completed_iff [of gen cd job] by blast
  have c: "find_job_requirements (job_openings st) job_position = Some job
        \<and> screen_candidate gen cd job = Completed res \<longrightarrow>
        process_candidate_application (screen_candidate gen) st cd job_position now
          = (ProcessSuccess ''Candidate screened but did not meet requirements'' res None,
             st\<lparr>candidates := candidates st @
                [\<lparr>data = cd, screening_result = Some res, interview_schedule = None,
                  application_date = Some now, status = ''rejected'', interview_status = [],
                  final_evaluation = None, selection_notes = None,
                  selection_date = None\<rparr>]\<rparr>)"
    using a by (simp add: process_candidate_application_def)
  have d: "snd (process_candidate_application (screen_candidate gen) st cd job_position now) = st
        \<or> (\<exists>c. snd (process_candidate_application (screen_candidate gen) st cd job_position now)
                  = st\<lparr>candidates := candidates st @ [c]\<rparr>
               \<and> status c = ''rejected'' \<and> interview_schedule c = None)"
  proof (cases "find_job_requirements (job_openings st) job_position")
    case None
    then show ?thesis by (simp add: process_candidate_application_def)
  next
    case (Some j)
    show ?thesis
    proof (cases "screen_candidate gen cd j")
      case (ScreeningError cid msg)
      then show ?thesis using Some by (simp add: process_candidate_application_def)
    next
      case (Completed r)
      let ?c = "\<lparr>data = cd, screening_result = Some r, interview_schedule = None,
                  application_date = Some now, status = ''rejected'', interview_status = [],
                  final_evaluation = None, selection_notes = None,
                  selection_date = None\<rparr>"
      have "snd (process_candidate_application (screen_candidate gen) st cd job_position now)
              = st\<lparr>candidates := candidates st @ [?c]\<rparr>"
        using Some Completed low [OF Completed]
        by (simp add: process_candidate_application_def)
      moreover have "status ?c = ''rejected'' \<and> interview_schedule ?c = None" by simp
      ultimately show ?thesis by blast
    qed
  qed
  show ?thesis using a b c d by blast
qed

theorem C3_shipped_weights_reject_everyone_witness:
  "resume_text example_candidate = ''5 years building Python services with Git workflows''
   \<and> jr_required_skills example_job = [''Python'', ''SQL'', ''Git'']
   \<and> find_job_requirements (job_openings open_state) ''software engineer'' = Some example_job
   \<and> (\<exists>res. screen_candidate template_feedback example_candidate example_job = Completed res
         \<and> overall_score res = 206 / 5
         \<and> recommendation res = ''Not Recommended - Does Not Meet Requirements''
         \<and> process_candidate_application (screen_candidate template_feedback) open_state
              example_candidate ''software engineer'' 1000
            = (ProcessSuccess ''Candidate screened but did not meet requirements'' res None,
               open_state\<lparr>candidates :=
                  [\<lparr>data = example_candidate, screening_result = Some res,
                    interview_schedule = None, application_date = Some 1000,
                    status = ''rejected'', interview_status = [], final_evaluation = None,
                    selection_notes = None, selection_date = None\<rparr>]\<rparr>))"
proof -
  have r: "resume_text example_candidate = ''5 years building Python services with Git workflows''"
    by (simp add: example_candidate_def)
  have k: "jr_required_skills example_job = [''Python'', ''SQL'', ''Git'']"
    by (simp add: example_job_def)
  have f: "find_job_requirements (job_openings open_state) ''software engineer'' = Some example_job"
    by code_simp
  have e: "candidates open_state = []" by (simp add: open_state_def)
  have ne: "resume_text example_candidate \<noteq> [] \<and> jr_required_skills example_job \<noteq> []"
    by (simp add: r k)
  obtain res where res: "screen_candidate template_feedback example_candidate example_job
      = Completed res"
    using C3_shipped_weights_reject_everyone [of template_feedback example_candidate example_job]
      ne by blast
  have ov: "map_screening overall_score
      (screen_candidate template_feedback example_candidate example_job) = Some (206 / 5)"
    by code_simp
  have rc: "map_screening recommendation
      (screen_candidate template_feedback example_candidate example_job)
      = Some ''Not Recommended - Does Not Meet Requirements''"
    by code_simp
  have o: "overall_score res = 206 / 5" using ov by (simp add: res map_screening_def)
  have c: "recommendation res = ''Not Recommended - Does Not Meet Requirements''"
    using rc by (simp add: res map_screening_def)
  show ?thesis
    using r k f e res o c
      C3_shipped_weights_reject_everyone [of template_feedback example_candidate example_job
        res open_state "''software engineer''" 1000]
    by auto
qed

text \<open>
  Claim C4. The tiers of \<open>_determine_recommendation\<close> are closed on the lower bound: 85 and
  above is "Strongly Recommend", 70 up to 85 is "Recommend", 55 up to 70 is "Consider", below
  55 is "Not Recommended"; 85.00 is "Strongly Recommend" and 84.99 is "Recommend".
\<close>

theorem C4_recommendation_tiers:
  "(85 \<le> s \<longrightarrow> determine_recommendation s = ''Strongly Recommend - Move to Technical Assessment'')
   \<and> (70 \<le> s \<and> s < 85 \<longrightarrow> determine_recommendation s = ''Recommend - Move to HR Interview'')
   \<and> (55 \<le> s \<and> s < 70 \<longrightarrow>
        determine_recommendation s = ''Consider - Additional Screening Required'')
   \<and> (s < 55 \<longrightarrow> determine_recommendation s = ''Not Recommended - Does Not Meet Requirements'')
   \<and> determine_recommendation 85 = ''Strongly Recommend - Move to Technical Assessment''
   \<and> determine_recommendation (8499 / 100) = ''Recommend - Move to HR Interview''"
  by (simp add: determine_recommendation_def)

theorem C4_recommendation_tiers_witness:
  "(85::rat) \<le> 90
   \<and> determine_recommendation 90 = ''Strongly Recommend - Move to Technical Assessment''
   \<and> (70::rat) \<le> 70 \<and> (70::rat) < 85
   \<and> determine_recommendation 70 = ''Recommend - Move to HR Interview''
   \<and> (55::rat) \<le> 60 \<and> (60::rat) < 70
   \<and> determine_recommendation 60 = ''Consider - Additional Screening Required''
   \<and> (5499 / 100 :: rat) < 55
   \<and> determine_recommendation (5499 / 100) = ''Not Recommended - Does Not Meet Requirements''"
  using C4_recommendation_tiers [of 90] C4_recommendation_tiers [of 70]
    C4_recommendation_tiers [of 60] C4_recommendation_tiers [of "5499 / 100"]
  by simp

text \<open>
  Claim C5. When the job is found and the screening completes, the candidate is stored with
  an interview schedule and status "interview_scheduled" if the recommendation text starts
  with "Strongly Recommend" or "Recommend", whatever the score and whichever screener
  produced the text; otherwise it is stored with status "rejected" and without a schedule.
\<close>

theorem C5_schedule_iff_recommended:
  assumes "find_job_requirements (job_openings st) job_position = Some job"
    and "screener cd job = Completed res"
  shows "\<exists>r c. process_candidate_application screener st cd job_position now
                 = (r, st\<lparr>candidates := candidates st @ [c]\<rparr>)
     \<and> data c = cd \<and> screening_result c = Some res
     \<and> ((startswith (recommendation res) ''Strongly Recommend''
            \<or> startswith (recommendation res) ''Recommend'') \<longrightarrow>
          status c = ''interview_scheduled''
          \<and> interview_schedule c = Some (create_interview_schedule cd job)
          \<and> r = ProcessSuccess ''Candidate passed screening and interview scheduled'' res
                  (Some (create_interview_schedule cd job)))
     \<and> (\<not> (startswith (recommendation res) ''Strongly Recommend''
            \<or> startswith (recommendation res) ''Recommend'') \<longrightarrow>
          status c = ''rejected'' \<and> interview_schedule c = None
          \<and> r = ProcessSuccess ''Candidate screened but did not meet requirements'' res None)
     \<and> ((status c = ''interview_scheduled'' \<and> interview_schedule c \<noteq> None)
            = (startswith (recommendation res) ''Strongly Recommend''
               \<or> startswith (recommendation res) ''Recommend''))"
proof -
  let ?passes = "startswith (recommendation res) ''Strongly Recommend''
            \<or> startswith (recommendation res) ''Recommend''"
  let ?sched = "create_interview_schedule cd job"
  let ?c = "\<lparr>data = cd, screening_result = Some res,
             interview_schedule = (if ?passes then Some ?sched else None),
             application_date = Some now,
             status = (if ?passes then ''interview_scheduled'' else ''rejected''),
             interview_status = [], final_evaluation = None, selection_notes = None,
             selection_date = None\<rparr>"
  let ?r = "if ?passes
            then ProcessSuccess ''Candidate passed screening and interview scheduled'' res (Some ?sched)
            else ProcessSuccess ''Candidate screened but did not meet requirements'' res None"
  have run: "process_candidate_application screener st cd job_position now
               = (?r, st\<lparr>candidates := candidates st @ [?c]\<rparr>)"
    using assms by (simp add: process_candidate_application_def Let_def)
  have props: "data ?c = cd \<and> screening_result ?c = Some res
     \<and> (?passes \<longrightarrow> status ?c = ''interview_scheduled'' \<and> interview_schedule ?c = Some ?sched
          \<and> ?r = ProcessSuccess ''Candidate passed screening and interview scheduled'' res
                  (Some ?sched))
     \<and> (\<not> ?passes \<longrightarrow> status ?c = ''rejected'' \<and> interview_schedule ?c = None
          \<and> ?r = ProcessSuccess ''Candidate screened but did not meet requirements'' res None)
     \<and> ((status ?c = ''interview_scheduled'' \<and> interview_schedule ?c \<noteq> None) = ?passes)"
    by simp
  show ?thesis
    apply (rule exI [of _ ?r])
    apply (rule exI [of _ ?c])
    using run props by blast
qed

theorem C5_schedule_iff_recommended_witness:
  "find_job_requirements (job_openings open_state) ''Office Assistant'' = Some assistant_job
   \<and> referral_screener assistant_candidate assistant_job = Completed referral_result
   \<and> startswith (recommendation referral_result) ''Recommend''
   \<and> overall_score referral_result = 10
   \<and> map status (candidates (snd (process_candidate_application referral_screener open_state
        assistant_candidate ''Office Assistant'' 2000))) = [''interview_scheduled'']
   \<and> map interview_schedule (candidates (snd (process_candidate_application referral_screener
        open_state assistant_candidate ''Office Assistant'' 2000)))
       = [Some (create_interview_schedule assistant_candidate assistant_job)]
   \<and> (\<exists>res. screen_candidate template_feedback assistant_candidate assistant_job
               = Completed res
         \<and> \<not> (startswith (recommendation res) ''Strongly Recommend''
                \<or> startswith (recommendation res) ''Recommend'')
         \<and> map status (candidates (snd (process_candidate_application
              (screen_candidate template_feedback) open_state
              assistant_candidate ''Office Assistant'' 2000))) = [''rejected'']
         \<and> map interview_schedule (candidates (snd (process_candidate_application
              (screen_candidate template_feedback) open_state
              assistant_candidate ''Office Assistant'' 2000))) = [None])"
proof -
  have f: "find_job_requirements (job_openings open_state) ''Office Assistant'' = Some assistant_job"
    by code_simp
  have s: "referral_screener assistant_candidate assistant_job = Completed referral_result"
    by (simp add: referral_screener_def)
  have p: "startswith (recommendation referral_result) ''Recommend''"
    by (simp add: referral_result_def)
  have o: "overall_score referral_result = 10" by (simp add: referral_result_def)
  have e: "candidates open_state = []" by (simp add: open_state_def)
  have ne: "resume_text assistant_candidate \<noteq> []" "jr_required_skills assistant_job \<noteq> []"
    by (simp_all add: assistant_candidate_def assistant_job_def)
  obtain res where res: "screen_candidate template_feedback assistant_candidate
      assistant_job = Completed res"
    and le: "overall_score res \<le> 65"
    and rc: "recommendation res = determine_recommendation (overall_score res)"
    using screen_candidate_completed [OF ne, of template_feedback] by blast
  have "overall_score res < 70" using le by simp
  then have no: "\<not> startswith (recommendation res) ''Strongly Recommend''
      \<and> \<not> startswith (recommendation res) ''Recommend''"
    unfolding rc by (rule low_score_not_recommended)
  show ?thesis
    using f s p o e res no
      C5_schedule_iff_recommended [where screener = referral_screener and st = open_state
        and cd = assistant_candidate and job = assistant_job and res = referral_result
        and job_position = "''Office Assistant''" and now = 2000]
      C5_schedule_iff_recommended [where st = open_state and cd = assistant_candidate
        and screener = "screen_candidate template_feedback"
        and job = assistant_job and res = res and job_position = "''Office Assistant''"
        and now = 2000]
    by auto
qed




text \<open>
  Claim C7, as stated, fails: \<open>make_final_selection\<close> turns a candidate whom the screening
  rejected into a hired one.
\<close>

theorem C7_terminal_status_overwritten_counterexample:
  "map (\<lambda>c. candidate_id (data c)) (candidates screened_state) = [Some ''c1'', Some ''c3'']
   \<and> map status (candidates screened_state) = [''rejected'', ''rejected'']
   \<and> map status (candidates (snd (make_final_selection screened_state ''c1'' ''hired''
        ''second thoughts'' 9000))) = [''hired'', ''rejected'']"
  by code_simp

text \<open>
  Claim C7, amended. \<open>conduct_interview\<close> and \<open>make_final_selection\<close> keep the number of
  candidates and every candidate other than the first one with the given id. For that
  candidate \<open>conduct_interview\<close> keeps the status or, only if it holds an interview
  schedule, sets it to "all_interviews_completed"; \<open>make_final_selection\<close> sets it to the
  given decision, whatever the status was.
\<close>

theorem C7_status_changes:
  "length (candidates (snd (conduct_interview st cid stage fb now))) = length (candidates st)
   \<and> length (candidates (snd (make_final_selection st cid decision notes now)))
       = length (candidates st)
   \<and> (j < length (candidates st) \<and> find_candidate (candidates st) cid \<noteq> Some j \<longrightarrow>
        candidates (snd (conduct_interview st cid stage fb now)) ! j = candidates st ! j
        \<and> candidates (snd (make_final_selection st cid decision notes now)) ! j
            = candidates st ! j)
   \<and> (find_candidate (candidates st) cid = Some j \<longrightarrow>
        (status (candidates (snd (conduct_interview st cid stage fb now)) ! j)
           = status (candidates st ! j)
         \<or> interview_schedule (candidates st ! j) \<noteq> None
           \<and> status (candidates (snd (conduct_interview st cid stage fb now)) ! j)
               = ''all_interviews_completed'')
        \<and> status (candidates (snd (make_final_selection st cid decision notes now)) ! j)
            = decision)"
proof (cases "find_candidate (candidates st) cid")
  case None
  then show ?thesis
    by (simp add: conduct_interview_missing make_final_selection_missing)
next
  case (Some i)
  have i: "i < length (candidates st)" using find_candidate_Some [OF Some] by simp
  show ?thesis
    using i complete_stage_status [of "candidates st ! i" cid stage fb now]
    by (auto simp: Some conduct_interview_found [OF Some] make_final_selection_found [OF Some])
qed

theorem C7_status_changes_witness:
  "find_candidate (candidates screened_state) ''c3'' = Some 1
   \<and> (0::nat) < length (candidates screened_state)
   \<and> find_candidate (candidates screened_state) ''c3'' \<noteq> Some 0
   \<and> candidates (snd (conduct_interview screened_state ''c3'' ''HR Interview'' ''fine'' 3000)) ! 0
       = candidates screened_state ! 0
   \<and> candidates (snd (make_final_selection screened_state ''c3'' ''hired'' ''ok'' 3000)) ! 0
       = candidates screened_state ! 0
   \<and> interview_schedule (candidates screened_state ! 1) = None
   \<and> status (candidates screened_state ! 1) = ''rejected''
   \<and> status (candidates (snd (conduct_interview screened_state ''c3'' ''HR Interview''
        ''fine'' 3000)) ! 1) = ''rejected''
   \<and> status (candidates (snd (make_final_selection screened_state ''c3'' ''hired'' ''ok''
        3000)) ! 1) = ''hired''"
proof -
  have f: "find_candidate (candidates screened_state) ''c3'' = Some 1" by code_simp
  have l: "(0::nat) < length (candidates screened_state)" by code_simp
  have n: "interview_schedule (candidates screened_state ! 1) = None" by code_simp
  have r: "status (candidates screened_state ! 1) = ''rejected''" by code_simp
  show ?thesis
    using f l n r
      C7_status_changes [of screened_state "''c3''" "''HR Interview''" "''fine''" 3000
        "''hired''" "''ok''" 0]
      C7_status_changes [of screened_state "''c3''" "''HR Interview''" "''fine''" 3000
        "''hired''" "''ok''" 1]
    by simp
qed

text \<open>
  Claim C8. For an id that no stored candidate carries, \<open>conduct_interview\<close> returns the
  error result with the message "Candidate with ID ... not found" and the state it was
  given, unchanged.
\<close>

theorem C8_unknown_candidate_no_change:
  assumes "\<forall>c \<in> set (candidates st). candidate_id (data c) \<noteq> Some cid"
  shows "conduct_interview st cid stage feedback now
           = (InterviewError (''Candidate with ID '' @ cid @ '' not found''), st)"
proof -
  have "find_candidate (candidates st) cid = None"
    using assms by (simp add: find_candidate_None)
  then show ?thesis by (simp add: conduct_interview_def)
qed

theorem C8_unknown_candidate_no_change_witness:
  "map (\<lambda>c. candidate_id (data c)) (candidates screened_state) = [Some ''c1'', Some ''c3'']
   \<and> conduct_interview screened_state ''c9'' ''HR Interview'' ''fine'' 3000
       = (InterviewError ''Candidate with ID c9 not found'', screened_state)"
proof -
  have ids: "map (\<lambda>c. candidate_id (data c)) (candidates screened_state) = [Some ''c1'', Some ''c3'']"
    by code_simp
  have "\<forall>x \<in> set (map (\<lambda>c. candidate_id (data c)) (candidates screened_state)). x \<noteq> Some ''c9''"
    unfolding ids by simp
  then have h: "\<forall>c \<in> set (candidates screened_state). candidate_id (data c) \<noteq> Some ''c9''"
    by simp
  show ?thesis
    using ids C8_unknown_candidate_no_change [OF h, of "''HR Interview''" "''fine''" 3000]
    by simp
qed

text \<open>
  Claim C9. For a fixed required level the required years do not depend on the candidate, the
  experience score does not decrease when the candidate's years grow, and it is exactly 100
  when the candidate's years equal the required years.
\<close>

theorem C9_experience_score_monotone:
  "(y1 \<le> y2 \<longrightarrow>
      em_score (evaluate_experience y1 lvl) \<le> em_score (evaluate_experience y2 lvl))
   \<and> em_required_years (evaluate_experience y1 lvl) = em_required_years (evaluate_experience y2 lvl)
   \<and> (y = em_required_years (evaluate_experience y lvl) \<longrightarrow>
        em_score (evaluate_experience y lvl) = 100)"
proof -
  have req: "\<And>z. em_required_years (evaluate_experience z lvl) = required_years lvl"
    by (simp add: evaluate_experience_def Let_def)
  show ?thesis
    using evaluate_experience_mono [of y1 y2 lvl] evaluate_experience_exact [of lvl]
    by (auto simp: req)
qed

theorem C9_experience_score_monotone_witness:
  "(2::rat) \<le> 3
   \<and> em_score (evaluate_experience 2 ''2-5 years'') \<le> em_score (evaluate_experience 3 ''2-5 years'')
   \<and> em_score (evaluate_experience 2 ''2-5 years'') = 5714 / 100
   \<and> em_score (evaluate_experience 3 ''2-5 years'') = 8571 / 100
   \<and> (5::rat) = em_required_years (evaluate_experience 5 ''5+ years'')
   \<and> em_score (evaluate_experience 5 ''5+ years'') = 100"
proof -
  have a: "em_score (evaluate_experience 2 ''2-5 years'') = 5714 / 100" by code_simp
  have b: "em_score (evaluate_experience 3 ''2-5 years'') = 8571 / 100" by code_simp
  have r: "(5::rat) = em_required_years (evaluate_experience 5 ''5+ years'')" by code_simp
  show ?thesis
    using C9_experience_score_monotone [of 2 3 "''2-5 years''" 5]
      C9_experience_score_monotone [of 2 3 "''5+ years''" 5] a b r
    by simp
qed

text \<open>
  Claim C10. With no candidates the interview-completion rate and the hiring-success rate
  are 0 and the average time to hire is "N/A"; none of the three computations divides by
  zero, on any state.
\<close>

theorem C10_empty_summary:
  "(candidates st = [] \<longrightarrow>
      calculate_interview_completion_rate st = Inr 0
      \<and> calculate_hiring_success_rate st = Inr 0
      \<and> calculate_average_time_to_hire st = Inr NA
      \<and> generate_recruitment_summary st
          = Inr \<lparr>total_job_openings = length (job_openings st), total_candidates = 0,
                 candidates_by_status = [], interview_completion_rate = 0,
                 hiring_success_rate = 0, average_time_to_hire = NA\<rparr>)
   \<and> calculate_interview_completion_rate st \<noteq> Inl ZeroDivisionError
   \<and> calculate_hiring_success_rate st \<noteq> Inl ZeroDivisionError
   \<and> calculate_average_time_to_hire st \<noteq> Inl ZeroDivisionError"
proof -
  have empty: "candidates st = [] \<longrightarrow>
      calculate_interview_completion_rate st = Inr 0
      \<and> calculate_hiring_success_rate st = Inr 0
      \<and> calculate_average_time_to_hire st = Inr NA
      \<and> generate_recruitment_summary st
          = Inr \<lparr>total_job_openings = length (job_openings st), total_candidates = 0,
                 candidates_by_status = [], interview_completion_rate = 0,
                 hiring_success_rate = 0, average_time_to_hire = NA\<rparr>"
    by (simp add: calculate_interview_completion_rate_def calculate_hiring_success_rate_def
        calculate_average_time_to_hire_def generate_recruitment_summary_def)
  have a: "calculate_interview_completion_rate st \<noteq> Inl ZeroDivisionError"
    by (simp add: calculate_interview_completion_rate_def truediv_of_nat Let_def)
  have b: "calculate_hiring_success_rate st \<noteq> Inl ZeroDivisionError"
    by (simp add: calculate_hiring_success_rate_def truediv_of_nat Let_def)
  have c: "calculate_average_time_to_hire st \<noteq> Inl ZeroDivisionError"
  proof -
    have loop: "\<And>cs t. total_days_loop cs t \<noteq> Inl ZeroDivisionError"
    proof -
      fix cs t show "total_days_loop cs t \<noteq> Inl ZeroDivisionError"
        by (induction cs arbitrary: t) (auto split: option.splits)
    qed
    show ?thesis
      using loop
      by (auto simp: calculate_average_time_to_hire_def truediv_of_nat Let_def
          split: sum.splits)
  qed
  show ?thesis using empty a b c by simp
qed

theorem C10_empty_summary_witness:
  "candidates open_state = []
   \<and> calculate_interview_completion_rate open_state = Inr 0
   \<and> calculate_hiring_success_rate open_state = Inr 0
   \<and> calculate_average_time_to_hire open_state = Inr NA
   \<and> generate_recruitment_summary open_state
       = Inr \<lparr>total_job_openings = 2, total_candidates = 0, candidates_by_status = [],
              interview_completion_rate = 0, hiring_success_rate = 0,
              average_time_to_hire = NA\<rparr>"
proof -
  have e: "candidates open_state = []" by (simp add: open_state_def)
  have j: "length (job_openings open_state) = 2" by (simp add: open_state_def)
  show ?thesis using e j C10_empty_summary [of open_state] by simp
qed

end
